theory Spec2Isabelle
  imports Main
begin

section \<open>The multi-step form wizard of formContext.tsx\<close>

text \<open>
  The file holds two modules: the context module (\<open>FormContext\<close>, \<open>useFormContext\<close>,
  \<open>FormProvider\<close>) and the component module (\<open>MultiStepForm\<close>, \<open>MultiStepFormContent\<close>,
  \<open>Step\<close>, \<open>EnhancedStepper\<close>, \<open>Navigation\<close>). Each function of the source is one
  definition below, under the source's name.

  Conventions of the embedding.
  \<^item> \<open>currentStep\<close> is a JavaScript number that starts at 0 and is only ever changed by
    adding or subtracting 1 and by \<open>Math.min\<close>/\<open>Math.max\<close> against an array length, so
    it is an \<open>int\<close>; \<open>steps.length - 1\<close> is \<open>int (length steps) - 1\<close>, which is -1 for
    an empty array, as in JavaScript.
  \<^item> \<open>Record<string, any>\<close> is a map from strings to values of some type \<open>'v\<close>.
  \<^item> \<open>React.Children.toArray(children) as React.ReactElement<StepProps>[]\<close> is a list of
    step elements; an element is represented by its props. The cast is not checked:
    \<open>children: ReactNode\<close> also admits text and numbers, which \<open>toArray\<close> keeps. The
    definitions on \<open>StepProps list\<close> are the components on an array of elements;
    \<open>stepsData_children\<close> and \<open>MultiStepForm_children\<close> are the derivation and the
    wizard on any array \<open>toArray\<close> can return.
  \<^item> The \<open>throw\<close> of the source and the engine's error for reading a property of
    \<open>undefined\<close> are the \<open>Inl\<close> branch of a sum type.
  \<^item> The two \<open>useState\<close> cells of \<open>FormProvider\<close> are a record; a state setter is a
    function on that record. The caller's completion callback acts on a caller-side
    world of some type \<open>'w\<close>; an event handler transforms the pair of both.
  \<^item> Styling pass-through (\<open>className\<close>, \<open>style\<close>) and the animation wrappers carry no
    behaviour and are left out of the rendered views.
\<close>

subsection \<open>Context module\<close>

text \<open>The two errors a render can end in: the \<open>Error\<close> the accessor throws, with its
  message, and the \<open>TypeError\<close> of the engine for reading a property of \<open>undefined\<close>.\<close>

datatype error = Error string | TypeError

record 'v ProviderState =
  currentStep_cell :: int
  formData_cell :: "string \<rightharpoonup> 'v"

record 'v FormContextType =
  currentStep :: int
  setCurrentStep :: "(int \<Rightarrow> int) \<Rightarrow> 'v ProviderState \<Rightarrow> 'v ProviderState"
  formData :: "string \<rightharpoonup> 'v"
  setFormData ::
    "((string \<rightharpoonup> 'v) \<Rightarrow> (string \<rightharpoonup> 'v)) \<Rightarrow> 'v ProviderState \<Rightarrow> 'v ProviderState"

text \<open>\<open>createContext<FormContextType | undefined>(undefined)\<close>: what \<open>useContext\<close> reads is
  \<open>None\<close> when no provider is mounted above the reader.\<close>

definition useFormContext :: "'c option \<Rightarrow> error + 'c" where
  "useFormContext context =
     (case context of
        None \<Rightarrow> Inl (Error ''useFormContext must be used within a FormProvider'')
      | Some c \<Rightarrow> Inr c)"

text \<open>\<open>useState(0)\<close> and \<open>useState({})\<close>.\<close>

definition initialState :: "'v ProviderState" where
  "initialState = \<lparr>currentStep_cell = 0, formData_cell = Map.empty\<rparr>"

text \<open>The value \<open>FormProvider\<close> hands to its descendants when its cells hold \<open>st\<close>.\<close>

definition FormProvider :: "'v ProviderState \<Rightarrow> 'v FormContextType" where
  "FormProvider st =
     \<lparr>currentStep = currentStep_cell st,
      setCurrentStep = (\<lambda>f s. s\<lparr>currentStep_cell := f (currentStep_cell s)\<rparr>),
      formData = formData_cell st,
      setFormData = (\<lambda>f s. s\<lparr>formData_cell := f (formData_cell s)\<rparr>)\<rparr>"

subsection \<open>Component module: props and rendered views\<close>

record 'n StepProps =
  children :: 'n
  title :: string

text \<open>An entry of \<open>stepsData\<close>: \<open>{ step: number; title: string }\<close>.\<close>

record StepEntry =
  step :: int
  entry_title :: string

datatype scale = Scale_1_1 | Scale_1

datatype marker = CheckSvg | DotSpan string

text \<open>What \<open>EnhancedStepper\<close> renders for one entry: the circle's conditional classes, its
  scale, the check mark or the dot inside it, the heading with its conditional class and
  font weight, and the connector's colour when a connector is rendered.\<close>

record StepIndicator =
  indicator_key :: int
  circle_class :: string
  circle_scale :: scale
  circle_marker :: marker
  heading :: string
  heading_class :: string
  fontWeight :: string
  connector :: "string option"

record 'h Button =
  label :: string
  onClick :: 'h
  disabled :: bool

record 'h NavigationView =
  previous_button :: "'h Button"
  action_button :: "'h Button"

record ('n, 'h) ContentView =
  stepper :: "StepIndicator list"
  shown :: "'n StepProps option"
  navigation :: "'h NavigationView"

type_synonym ('v, 'w) handler = "'v ProviderState \<times> 'w \<Rightarrow> 'v ProviderState \<times> 'w"

text \<open>\<open>Step\<close> renders its children inside a styled \<open>div\<close>; the title is only read by
  \<open>MultiStepForm\<close>.\<close>

definition Step :: "'n StepProps \<Rightarrow> 'n" where
  "Step p = children p"

subsection \<open>Step-list derivation\<close>

text \<open>\<open>steps.map((step, index) => ({ step: index + 1, title: step.props.title }))\<close>\<close>

definition stepsData :: "'n StepProps list \<Rightarrow> StepEntry list" where
  "stepsData steps =
     map (\<lambda>(index, s). \<lparr>step = int index + 1, entry_title = title s\<rparr>)
       (enumerate 0 steps)"

subsection \<open>Stepper\<close>

definition EnhancedStepper :: "StepEntry list \<Rightarrow> int \<Rightarrow> StepIndicator list" where
  "EnhancedStepper steps cur =
     map (\<lambda>(index, s).
        \<lparr>indicator_key = step s,
         circle_class =
           (if cur \<ge> step s then ''border-none border-[#788191] bg-[#788191]''
            else ''border-[#EAECF0]''),
         circle_scale = (if cur = step s then Scale_1_1 else Scale_1),
         circle_marker =
           (if cur > step s then CheckSvg
            else DotSpan (if cur = step s then ''bg-[#EAECF0] drop-shadow-md''
                          else ''bg-[#EAECF0]'')),
         heading = entry_title s,
         heading_class = (if cur = step s then ''text-[#3E3E45]'' else ''text-[#71717A]''),
         fontWeight = (if cur = step s then ''bold'' else ''normal''),
         connector =
           (if int index < int (length steps) - 1
            then Some (if cur > step s then ''#788191'' else ''#EAECF0'')
            else None)\<rparr>)
       (enumerate 0 steps)"

subsection \<open>Navigation\<close>

definition Navigation :: "bool \<Rightarrow> bool \<Rightarrow> 'h \<Rightarrow> 'h \<Rightarrow> 'h \<Rightarrow> 'h NavigationView" where
  "Navigation isFirstStep isLastStep onNext onPrev onSubmit =
     \<lparr>previous_button = \<lparr>label = ''Previous'', onClick = onPrev, disabled = isFirstStep\<rparr>,
      action_button =
        (if isLastStep then \<lparr>label = ''Submit'', onClick = onSubmit, disabled = False\<rparr>
         else \<lparr>label = ''Next'', onClick = onNext, disabled = False\<rparr>)\<rparr>"

subsection \<open>The wizard\<close>

text \<open>The three closures \<open>MultiStepFormContent\<close> builds on every render.
  \<open>handleSubmit\<close> hands the caller's callback the \<open>formData\<close> of the render it closes
  over; \<open>onNext\<close> and \<open>onPrev\<close> pass an updater to \<open>setCurrentStep\<close>.\<close>

definition handleSubmit ::
  "((string \<rightharpoonup> 'v) \<Rightarrow> 'w \<Rightarrow> 'w) \<Rightarrow> 'v FormContextType \<Rightarrow> ('v, 'w) handler" where
  "handleSubmit onSubmit ctx = apsnd (onSubmit (formData ctx))"

definition onNext :: "'n StepProps list \<Rightarrow> 'v FormContextType \<Rightarrow> ('v, 'w) handler" where
  "onNext steps ctx =
     apfst (setCurrentStep ctx (\<lambda>prev. min (prev + 1) (int (length steps) - 1)))"

definition onPrev :: "'v FormContextType \<Rightarrow> ('v, 'w) handler" where
  "onPrev ctx = apfst (setCurrentStep ctx (\<lambda>prev. max (prev - 1) 0))"

text \<open>\<open>steps[currentStep]\<close>: \<open>undefined\<close> (nothing rendered) outside the array.\<close>

definition stepAt :: "'n StepProps list \<Rightarrow> int \<Rightarrow> 'n StepProps option" where
  "stepAt steps i =
     (if 0 \<le> i \<and> i < int (length steps) then Some (steps ! nat i) else None)"

definition MultiStepFormContent ::
  "'v FormContextType option \<Rightarrow> 'n StepProps list \<Rightarrow> ((string \<rightharpoonup> 'v) \<Rightarrow> 'w \<Rightarrow> 'w) \<Rightarrow>
   StepEntry list \<Rightarrow> error + ('n, ('v, 'w) handler) ContentView" where
  "MultiStepFormContent context steps onSubmit sd =
     (case useFormContext context of
        Inl e \<Rightarrow> Inl e
      | Inr ctx \<Rightarrow>
          Inr \<lparr>stepper = EnhancedStepper sd (currentStep ctx + 1),
               shown = stepAt steps (currentStep ctx),
               navigation =
                 Navigation (currentStep ctx = 0)
                   (currentStep ctx = int (length steps) - 1)
                   (onNext steps ctx) (onPrev ctx) (handleSubmit onSubmit ctx)\<rparr>)"

definition MultiStepForm ::
  "'n StepProps list \<Rightarrow> ((string \<rightharpoonup> 'v) \<Rightarrow> 'w \<Rightarrow> 'w) \<Rightarrow> 'v ProviderState \<Rightarrow>
   error + ('n, ('v, 'w) handler) ContentView" where
  "MultiStepForm steps onSubmit st =
     MultiStepFormContent (Some (FormProvider st)) steps onSubmit (stepsData steps)"

subsection \<open>Children that are not step elements\<close>

text \<open>An entry of \<open>React.Children.toArray(children)\<close>: an element, a string or a number
  (\<open>toArray\<close> drops \<open>null\<close>, \<open>undefined\<close> and booleans).\<close>

datatype 'n ReactNode = StepElement "'n StepProps" | TextNode string | NumberNode int

fun isStepElement :: "'n ReactNode \<Rightarrow> bool" where
  "isStepElement (StepElement p) = True"
| "isStepElement (TextNode s) = False"
| "isStepElement (NumberNode n) = False"

text \<open>\<open>step.props.title\<close> on one entry. A string and a number have no \<open>props\<close>, so
  \<open>step.props\<close> is \<open>undefined\<close> and reading \<open>title\<close> of it throws.\<close>

fun readTitle :: "'n ReactNode \<Rightarrow> error + string" where
  "readTitle (StepElement p) = Inr (title p)"
| "readTitle (TextNode s) = Inl TypeError"
| "readTitle (NumberNode n) = Inl TypeError"

text \<open>The \<open>map\<close> of \<open>MultiStepForm\<close> over the entries from position \<open>index\<close> on. It visits
  the entries in order, and the first entry whose title cannot be read ends it.\<close>

fun stepsData_children :: "nat \<Rightarrow> 'n ReactNode list \<Rightarrow> error + StepEntry list" where
  "stepsData_children index [] = Inr []"
| "stepsData_children index (c # cs) =
     (case readTitle c of
        Inl e \<Rightarrow> Inl e
      | Inr t \<Rightarrow>
          (case stepsData_children (Suc index) cs of
             Inl e \<Rightarrow> Inl e
           | Inr es \<Rightarrow> Inr (\<lparr>step = int index + 1, entry_title = t\<rparr> # es)))"

text \<open>The props of the entries that are elements, in order.\<close>

fun elementProps :: "'n ReactNode list \<Rightarrow> 'n StepProps list" where
  "elementProps [] = []"
| "elementProps (StepElement p # cs) = p # elementProps cs"
| "elementProps (TextNode s # cs) = elementProps cs"
| "elementProps (NumberNode n # cs) = elementProps cs"

text \<open>\<open>MultiStepForm\<close> on any array of children. It computes \<open>stepsData\<close> before it
  returns the provider and the content component, so an entry that is not an element ends
  the render there. Once \<open>stepsData\<close> is computed every entry is an element, and the
  array the content component works on is the array of their props.\<close>

definition MultiStepForm_children ::
  "'n ReactNode list \<Rightarrow> ((string \<rightharpoonup> 'v) \<Rightarrow> 'w \<Rightarrow> 'w) \<Rightarrow> 'v ProviderState \<Rightarrow>
   error + ('n, ('v, 'w) handler) ContentView" where
  "MultiStepForm_children nodes onSubmit st =
     (case stepsData_children 0 nodes of
        Inl e \<Rightarrow> Inl e
      | Inr sd \<Rightarrow>
          MultiStepFormContent (Some (FormProvider st)) (elementProps nodes) onSubmit sd)"

subsection \<open>Transitions\<close>

text \<open>One activation of a control runs the handler of the render of the current state.\<close>

datatype control = Previous | Next | Submit

definition activate ::
  "control \<Rightarrow> 'n StepProps list \<Rightarrow> ((string \<rightharpoonup> 'v) \<Rightarrow> 'w \<Rightarrow> 'w) \<Rightarrow> ('v, 'w) handler" where
  "activate c steps onSubmit m =
     (let ctx = FormProvider (fst m) in
      case c of
        Previous \<Rightarrow> onPrev ctx m
      | Next \<Rightarrow> onNext steps ctx m
      | Submit \<Rightarrow> handleSubmit onSubmit ctx m)"

text \<open>The states a sequence of activations passes through, the starting state first.\<close>

fun run ::
  "'n StepProps list \<Rightarrow> ((string \<rightharpoonup> 'v) \<Rightarrow> 'w \<Rightarrow> 'w) \<Rightarrow> control list \<Rightarrow>
   'v ProviderState \<times> 'w \<Rightarrow> ('v ProviderState \<times> 'w) list" where
  "run steps onSubmit [] m = [m]"
| "run steps onSubmit (c # cs) m = m # run steps onSubmit cs (activate c steps onSubmit m)"

subsection \<open>Properties the theorems speak about\<close>

text \<open>The index lies inside the declared steps: \<open>0 \<le> currentStep \<le> steps.length - 1\<close>.\<close>

definition step_in_bounds :: "'n StepProps list \<Rightarrow> 'v ProviderState \<times> 'w \<Rightarrow> bool" where
  "step_in_bounds steps m =
     (0 \<le> currentStep_cell (fst m) \<and> currentStep_cell (fst m) \<le> int (length steps) - 1)"

text \<open>The three looks \<open>EnhancedStepper\<close> gives an entry. Completed: the filled circle with
  the check mark. Active: the filled, enlarged circle with the shadowed dot and the bold,
  dark heading. Pending: the bordered circle with the plain dot.\<close>

definition is_completed :: "StepIndicator \<Rightarrow> bool" where
  "is_completed ind =
     (circle_marker ind = CheckSvg
      \<and> circle_class ind = ''border-none border-[#788191] bg-[#788191]''
      \<and> circle_scale ind = Scale_1
      \<and> heading_class ind = ''text-[#71717A]'' \<and> fontWeight ind = ''normal'')"

definition is_active :: "StepIndicator \<Rightarrow> bool" where
  "is_active ind =
     (circle_marker ind = DotSpan ''bg-[#EAECF0] drop-shadow-md''
      \<and> circle_class ind = ''border-none border-[#788191] bg-[#788191]''
      \<and> circle_scale ind = Scale_1_1
      \<and> heading_class ind = ''text-[#3E3E45]'' \<and> fontWeight ind = ''bold'')"

definition is_pending :: "StepIndicator \<Rightarrow> bool" where
  "is_pending ind =
     (circle_marker ind = DotSpan ''bg-[#EAECF0]''
      \<and> circle_class ind = ''border-[#EAECF0]''
      \<and> circle_scale ind = Scale_1
      \<and> heading_class ind = ''text-[#71717A]'' \<and> fontWeight ind = ''normal'')"

section \<open>What one activation does\<close>

lemma activate_Next:
  "activate Next steps onSubmit m =
     (fst m\<lparr>currentStep_cell := min (currentStep_cell (fst m) + 1) (int (length steps) - 1)\<rparr>,
      snd m)"
  by (cases m) (simp add: activate_def onNext_def FormProvider_def)

lemma activate_Previous:
  "activate Previous steps onSubmit m =
     (fst m\<lparr>currentStep_cell := max (currentStep_cell (fst m) - 1) 0\<rparr>, snd m)"
  by (cases m) (simp add: activate_def onPrev_def FormProvider_def)

lemma activate_Submit:
  "activate Submit steps onSubmit m = (fst m, onSubmit (formData_cell (fst m)) (snd m))"
  by (cases m) (simp add: activate_def handleSubmit_def FormProvider_def)

lemma activate_in_bounds:
  assumes "1 \<le> length steps" and "step_in_bounds steps m"
  shows "step_in_bounds steps (activate c steps onSubmit m)"
  using assms
  by (cases c) (auto simp: step_in_bounds_def activate_Next activate_Previous activate_Submit)

lemma run_in_bounds:
  assumes "1 \<le> length steps"
  shows "step_in_bounds steps m \<Longrightarrow> list_all (step_in_bounds steps) (run steps onSubmit cs m)"
proof (induction cs arbitrary: m)
  case Nil
  then show ?case by simp
next
  case (Cons c cs)
  from assms Cons.prems have "step_in_bounds steps (activate c steps onSubmit m)"
    by (rule activate_in_bounds)
  with Cons show ?case by simp
qed

lemma initial_in_bounds: "1 \<le> length steps \<Longrightarrow> step_in_bounds steps (initialState, w)"
  by (cases steps) (simp_all add: step_in_bounds_def initialState_def)

lemma funpow_fixed: "f x = x \<Longrightarrow> (f ^^ k) x = x"
  by (induction k) simp_all

lemma MultiStepForm_renders:
  "MultiStepForm steps onSubmit st =
     Inr \<lparr>stepper = EnhancedStepper (stepsData steps) (currentStep_cell st + 1),
          shown = stepAt steps (currentStep_cell st),
          navigation =
            Navigation (currentStep_cell st = 0) (currentStep_cell st = int (length steps) - 1)
              (onNext steps (FormProvider st)) (onPrev (FormProvider st))
              (handleSubmit onSubmit (FormProvider st))\<rparr>"
  by (simp add: MultiStepForm_def MultiStepFormContent_def useFormContext_def FormProvider_def)

section \<open>What the derivation and the stepper compute\<close>

lemma length_stepsData: "length (stepsData steps) = length steps"
  by (simp add: stepsData_def)

lemma nth_stepsData:
  "i < length steps \<Longrightarrow>
   stepsData steps ! i = \<lparr>step = int i + 1, entry_title = title (steps ! i)\<rparr>"
  by (simp add: stepsData_def nth_enumerate_eq)

lemma length_EnhancedStepper: "length (EnhancedStepper sd cur) = length sd"
  by (simp add: EnhancedStepper_def)

lemma nth_EnhancedStepper:
  "i < length sd \<Longrightarrow>
   EnhancedStepper sd cur ! i =
     \<lparr>indicator_key = step (sd ! i),
      circle_class =
        (if cur \<ge> step (sd ! i) then ''border-none border-[#788191] bg-[#788191]''
         else ''border-[#EAECF0]''),
      circle_scale = (if cur = step (sd ! i) then Scale_1_1 else Scale_1),
      circle_marker =
        (if cur > step (sd ! i) then CheckSvg
         else DotSpan (if cur = step (sd ! i) then ''bg-[#EAECF0] drop-shadow-md''
                       else ''bg-[#EAECF0]'')),
      heading = entry_title (sd ! i),
      heading_class = (if cur = step (sd ! i) then ''text-[#3E3E45]'' else ''text-[#71717A]''),
      fontWeight = (if cur = step (sd ! i) then ''bold'' else ''normal''),
      connector =
        (if int i < int (length sd) - 1
         then Some (if cur > step (sd ! i) then ''#788191'' else ''#EAECF0'')
         else None)\<rparr>"
  by (simp add: EnhancedStepper_def nth_enumerate_eq)

lemma completed_iff:
  "i < length sd \<Longrightarrow> is_completed (EnhancedStepper sd cur ! i) = (step (sd ! i) < cur)"
  by (simp add: nth_EnhancedStepper is_completed_def)

lemma active_iff:
  "i < length sd \<Longrightarrow> is_active (EnhancedStepper sd cur ! i) = (step (sd ! i) = cur)"
  by (auto simp add: nth_EnhancedStepper is_active_def)

lemma pending_iff:
  "i < length sd \<Longrightarrow> is_pending (EnhancedStepper sd cur ! i) = (cur < step (sd ! i))"
  by (auto simp add: nth_EnhancedStepper is_pending_def)

lemma filter_single:
  assumes "k < length xs" and "\<And>i. i < length xs \<Longrightarrow> P (xs ! i) = (i = k)"
  shows "filter P xs = [xs ! k]"
proof -
  have split: "xs = take k xs @ xs ! k # drop (Suc k) xs"
    using assms(1) by (rule id_take_nth_drop)
  have before: "filter P (take k xs) = []"
    using assms by (auto simp: filter_empty_conv in_set_conv_nth)
  have after: "filter P (drop (Suc k) xs) = []"
    using assms by (auto simp: filter_empty_conv in_set_conv_nth)
  have here: "P (xs ! k)"
    using assms by simp
  have "filter P xs = filter P (take k xs @ xs ! k # drop (Suc k) xs)"
    using split by simp
  also have "\<dots> = [xs ! k]"
    using before after here by simp
  finally show ?thesis .
qed

section \<open>The step index stays inside the declared steps\<close>

text \<open>
  C1. With at least one declared step, every state that a sequence of activations passes
  through, starting from \<open>currentStep = 0\<close>, has \<open>0 \<le> currentStep \<le> stepCount - 1\<close>: the
  starting state and the state after every transition. The sequence may hold Next and
  Previous in any order (and Submit as well, which does not touch the index).
\<close>

theorem currentStep_stays_in_range:
  assumes "1 \<le> length steps"
  shows "list_all (\<lambda>m. 0 \<le> currentStep_cell (fst m) \<and>
                       currentStep_cell (fst m) \<le> int (length steps) - 1)
           (run steps onSubmit cs (initialState, w))"
proof -
  have "list_all (step_in_bounds steps) (run steps onSubmit cs (initialState, w))"
    using assms by (intro run_in_bounds initial_in_bounds)
  then show ?thesis
    by (simp add: step_in_bounds_def[abs_def])
qed

text \<open>Two steps; Next twice, then Previous three times: the index reads 0, 1, 1, 0, 0, 0.\<close>

theorem currentStep_stays_in_range_witness:
  "map (\<lambda>m. currentStep_cell (fst m))
     (run [\<lparr>children = (), title = ''A''\<rparr>, \<lparr>children = (), title = ''B''\<rparr>]
        (\<lambda>d log. log @ [d]) [Next, Next, Previous, Previous, Previous]
        (initialState :: nat ProviderState, [])) = [0, 1, 1, 0, 0, 0]
   \<and> list_all (\<lambda>m. 0 \<le> currentStep_cell (fst m) \<and>
         currentStep_cell (fst m)
           \<le> int (length [\<lparr>children = (), title = ''A''\<rparr>, \<lparr>children = (), title = ''B''\<rparr>]) - 1)
     (run [\<lparr>children = (), title = ''A''\<rparr>, \<lparr>children = (), title = ''B''\<rparr>]
        (\<lambda>d log. log @ [d]) [Next, Next, Previous, Previous, Previous]
        (initialState :: nat ProviderState, []))"
proof
  show "map (\<lambda>m. currentStep_cell (fst m))
     (run [\<lparr>children = (), title = ''A''\<rparr>, \<lparr>children = (), title = ''B''\<rparr>]
        (\<lambda>d log. log @ [d]) [Next, Next, Previous, Previous, Previous]
        (initialState :: nat ProviderState, [])) = [0, 1, 1, 0, 0, 0]"
    by (simp add: activate_Next activate_Previous initialState_def)
  show "list_all (\<lambda>m. 0 \<le> currentStep_cell (fst m) \<and>
         currentStep_cell (fst m)
           \<le> int (length [\<lparr>children = (), title = ''A''\<rparr>, \<lparr>children = (), title = ''B''\<rparr>]) - 1)
     (run [\<lparr>children = (), title = ''A''\<rparr>, \<lparr>children = (), title = ''B''\<rparr>]
        (\<lambda>d log. log @ [d]) [Next, Next, Previous, Previous, Previous]
        (initialState :: nat ProviderState, []))"
    by (rule currentStep_stays_in_range) simp
qed

text \<open>
  C10. With no declared step the Next control is what the wizard renders in its initial
  state, and activating it sets \<open>currentStep\<close> to \<open>min (0 + 1) (0 - 1) = -1\<close>. The bounds
  property holds along every sequence of activations exactly when there is at least one
  declared step.
\<close>

theorem zero_steps_Next_leaves_range:
  "(\<exists>v. MultiStepForm [] onSubmit initialState = Inr v
       \<and> label (action_button (navigation v)) = ''Next''
       \<and> onClick (action_button (navigation v)) (initialState, w)
           = activate Next [] onSubmit (initialState, w))
   \<and> currentStep_cell (fst (activate Next [] onSubmit (initialState, w)))
       = min (0 + 1) (int (length []) - 1)
   \<and> currentStep_cell (fst (activate Next [] onSubmit (initialState, w))) = - 1
   \<and> (\<forall>cs. list_all (step_in_bounds steps) (run steps onSubmit' cs (initialState, w')))
       = (1 \<le> length steps)"
proof -
  have "(\<forall>cs. list_all (step_in_bounds steps) (run steps onSubmit' cs (initialState, w')))
       = (1 \<le> length steps)"
  proof
    assume "\<forall>cs. list_all (step_in_bounds steps) (run steps onSubmit' cs (initialState, w'))"
    then have "list_all (step_in_bounds steps) (run steps onSubmit' [] (initialState, w'))" ..
    then show "1 \<le> length steps"
      by (cases steps) (simp_all add: step_in_bounds_def initialState_def)
  next
    assume "1 \<le> length steps"
    then show "\<forall>cs. list_all (step_in_bounds steps) (run steps onSubmit' cs (initialState, w'))"
      by (simp add: run_in_bounds initial_in_bounds)
  qed
  then show ?thesis
    by (simp add: MultiStepForm_renders Navigation_def activate_Next initialState_def
        activate_def onNext_def FormProvider_def)
qed

section \<open>Next and Previous\<close>

text \<open>
  C2. For every list of steps and every state, Next sets \<open>currentStep\<close> to
  \<open>min (currentStep + 1) (stepCount - 1)\<close> and touches nothing else; when
  \<open>currentStep = stepCount - 1\<close>, any number of Next activations leaves the state as it is.
\<close>

theorem Next_sets_min:
  "currentStep_cell (fst (activate Next steps onSubmit m))
     = min (currentStep_cell (fst m) + 1) (int (length steps) - 1)
   \<and> formData_cell (fst (activate Next steps onSubmit m)) = formData_cell (fst m)
   \<and> snd (activate Next steps onSubmit m) = snd m
   \<and> (currentStep_cell (fst m) = int (length steps) - 1
        \<longrightarrow> (activate Next steps onSubmit ^^ k) m = m)"
proof -
  have "(activate Next steps onSubmit ^^ k) m = m"
    if "currentStep_cell (fst m) = int (length steps) - 1"
  proof (rule funpow_fixed)
    from that show "activate Next steps onSubmit m = m"
      by (cases m) (simp add: activate_Next)
  qed
  then show ?thesis by (simp add: activate_Next)
qed

text \<open>Three steps, the index on the last one, Next four times.\<close>

theorem Next_sets_min_witness:
  "(activate Next [\<lparr>children = (), title = ''A''\<rparr>, \<lparr>children = (), title = ''B''\<rparr>,
                   \<lparr>children = (), title = ''C''\<rparr>] (\<lambda>d log. log @ [d]) ^^ 4)
     (\<lparr>currentStep_cell = 2, formData_cell = Map.empty :: string \<rightharpoonup> nat\<rparr>, [])
   = (\<lparr>currentStep_cell = 2, formData_cell = Map.empty\<rparr>, [])"
  using Next_sets_min [where m = "(\<lparr>currentStep_cell = 2, formData_cell = Map.empty :: string \<rightharpoonup> nat\<rparr>, [])"
      and steps = "[\<lparr>children = (), title = ''A''\<rparr>, \<lparr>children = (), title = ''B''\<rparr>,
                   \<lparr>children = (), title = ''C''\<rparr>]" and onSubmit = "(\<lambda>d log. log @ [d])" and k = 4]
  by simp

text \<open>
  C3. For every state, Previous sets \<open>currentStep\<close> to \<open>max (currentStep - 1) 0\<close> and
  touches nothing else; when \<open>currentStep = 0\<close>, any number of Previous activations leaves
  the state as it is.
\<close>

theorem Previous_sets_max:
  "currentStep_cell (fst (activate Previous steps onSubmit m))
     = max (currentStep_cell (fst m) - 1) 0
   \<and> formData_cell (fst (activate Previous steps onSubmit m)) = formData_cell (fst m)
   \<and> snd (activate Previous steps onSubmit m) = snd m
   \<and> (currentStep_cell (fst m) = 0 \<longrightarrow> (activate Previous steps onSubmit ^^ k) m = m)"
proof -
  have "(activate Previous steps onSubmit ^^ k) m = m" if "currentStep_cell (fst m) = 0"
  proof (rule funpow_fixed)
    from that show "activate Previous steps onSubmit m = m"
      by (cases m) (simp add: activate_Previous)
  qed
  then show ?thesis by (simp add: activate_Previous)
qed

text \<open>Two steps, the index on the first one, Previous three times.\<close>

theorem Previous_sets_max_witness:
  "(activate Previous [\<lparr>children = (), title = ''A''\<rparr>, \<lparr>children = (), title = ''B''\<rparr>]
       (\<lambda>d log. log @ [d]) ^^ 3)
     (\<lparr>currentStep_cell = 0, formData_cell = Map.empty :: string \<rightharpoonup> nat\<rparr>, [])
   = (\<lparr>currentStep_cell = 0, formData_cell = Map.empty\<rparr>, [])"
  using Previous_sets_max [where m = "(\<lparr>currentStep_cell = 0, formData_cell = Map.empty :: string \<rightharpoonup> nat\<rparr>, [])"
      and steps = "[\<lparr>children = (), title = ''A''\<rparr>, \<lparr>children = (), title = ''B''\<rparr>]" and onSubmit = "(\<lambda>d log. log @ [d])" and k = 3]
  by simp

section \<open>Submit\<close>

text \<open>
  C4. On the last step the control the wizard renders is Submit, and one activation of it
  applies the caller's callback once, to the form data of that moment: the caller's world
  afterwards is the callback's result on the world before. With a callback that records
  its argument, one entry is appended to the record, and it is the form data.
\<close>

theorem Submit_invokes_callback_once:
  assumes "currentStep_cell st = int (length steps) - 1"
  shows "\<exists>v. MultiStepForm steps onSubmit st = Inr v
           \<and> label (action_button (navigation v)) = ''Submit''
           \<and> \<not> disabled (action_button (navigation v))
           \<and> onClick (action_button (navigation v)) (st, w)
               = (st, onSubmit (formData_cell st) w)
           \<and> activate Submit steps onSubmit (st, w) = (st, onSubmit (formData_cell st) w)
           \<and> snd (activate Submit steps (\<lambda>d log. log @ [d]) (st, calls))
               = calls @ [formData_cell st]"
  using assms
  by (simp add: MultiStepForm_renders Navigation_def handleSubmit_def FormProvider_def
      activate_Submit)

text \<open>Three steps, the index on the last one, the bag \<open>{x: 1}\<close>, a recording callback.\<close>

theorem Submit_invokes_callback_once_witness:
  "currentStep_cell \<lparr>currentStep_cell = 2, formData_cell = [''x'' \<mapsto> (1::nat)]\<rparr>
     = int (length [\<lparr>children = (), title = ''A''\<rparr>, \<lparr>children = (), title = ''B''\<rparr>,
                    \<lparr>children = (), title = ''C''\<rparr>]) - 1
   \<and> (\<exists>v. MultiStepForm [\<lparr>children = (), title = ''A''\<rparr>, \<lparr>children = (), title = ''B''\<rparr>,
                          \<lparr>children = (), title = ''C''\<rparr>] (\<lambda>d log. log @ [d])
              \<lparr>currentStep_cell = 2, formData_cell = [''x'' \<mapsto> (1::nat)]\<rparr> = Inr v
          \<and> label (action_button (navigation v)) = ''Submit''
          \<and> snd (onClick (action_button (navigation v))
                (\<lparr>currentStep_cell = 2, formData_cell = [''x'' \<mapsto> (1::nat)]\<rparr>, []))
              = [[''x'' \<mapsto> 1]])"
proof -
  have h: "currentStep_cell \<lparr>currentStep_cell = 2, formData_cell = [''x'' \<mapsto> (1::nat)]\<rparr>
     = int (length [\<lparr>children = (), title = ''A''\<rparr>, \<lparr>children = (), title = ''B''\<rparr>,
                    \<lparr>children = (), title = ''C''\<rparr>]) - 1"
    by simp
  from Submit_invokes_callback_once [OF h, where onSubmit = "\<lambda>d log. log @ [d]" and w = "[]"
      and calls = "[]"]
  obtain v where "MultiStepForm [\<lparr>children = (), title = ''A''\<rparr>, \<lparr>children = (), title = ''B''\<rparr>,
                          \<lparr>children = (), title = ''C''\<rparr>] (\<lambda>d log. log @ [d])
              \<lparr>currentStep_cell = 2, formData_cell = [''x'' \<mapsto> (1::nat)]\<rparr> = Inr v"
    and "label (action_button (navigation v)) = ''Submit''"
    and "onClick (action_button (navigation v))
                (\<lparr>currentStep_cell = 2, formData_cell = [''x'' \<mapsto> (1::nat)]\<rparr>, [])
          = (\<lparr>currentStep_cell = 2, formData_cell = [''x'' \<mapsto> (1::nat)]\<rparr>, [[''x'' \<mapsto> 1]])"
    by auto
  with h show ?thesis by auto
qed

text \<open>
  C6. Submit leaves \<open>currentStep\<close> (and both cells of the provider) as they were, for
  every state and so for every state on the last step. The wizard rendered after Submit is
  the one rendered before it, so no control is disabled by it, and Next and Previous act
  after Submit as they act without it.
\<close>

theorem Submit_keeps_currentStep:
  "fst (activate Submit steps onSubmit m) = fst m
   \<and> currentStep_cell (fst (activate Submit steps onSubmit m)) = currentStep_cell (fst m)
   \<and> MultiStepForm steps onSubmit (fst (activate Submit steps onSubmit m))
       = MultiStepForm steps onSubmit (fst m)
   \<and> fst (activate Next steps onSubmit (activate Submit steps onSubmit m))
       = fst (activate Next steps onSubmit m)
   \<and> fst (activate Previous steps onSubmit (activate Submit steps onSubmit m))
       = fst (activate Previous steps onSubmit m)"
  by (simp add: activate_Submit activate_Next activate_Previous)

section \<open>The errors a render can end in\<close>

text \<open>The derivation on an array of children fails only with the \<open>TypeError\<close>, and exactly
  when an entry is not an element; when it succeeds, the array is an array of elements and
  the result is \<open>stepsData\<close> of their props.\<close>

lemma stepsData_children_Inl:
  "(stepsData_children index nodes = Inl e) = (e = TypeError \<and> \<not> list_all isStepElement nodes)"
proof (induction nodes arbitrary: index e)
  case Nil
  then show ?case by simp
next
  case (Cons c cs)
  show ?case
  proof (cases c)
    case (StepElement p)
    show ?thesis
    proof (cases "stepsData_children (Suc index) cs")
      case (Inl e')
      with Cons.IH [of "Suc index" e'] StepElement show ?thesis by auto
    next
      case (Inr es)
      with Cons.IH [of "Suc index" TypeError] StepElement show ?thesis by auto
    qed
  next
    case (TextNode s)
    then show ?thesis by auto
  next
    case (NumberNode n)
    then show ?thesis by auto
  qed
qed

lemma stepsData_children_Inr:
  "stepsData_children index nodes = Inr sd \<Longrightarrow>
   nodes = map StepElement (elementProps nodes)
   \<and> sd = map (\<lambda>(i, s). \<lparr>step = int i + 1, entry_title = title s\<rparr>)
           (enumerate index (elementProps nodes))"
proof (induction nodes arbitrary: index sd)
  case Nil
  then show ?case by simp
next
  case (Cons c cs)
  then show ?case
    by (cases c; cases "stepsData_children (Suc index) cs") auto
qed

lemma stepsData_children_elements:
  "stepsData_children index (map StepElement steps)
     = Inr (map (\<lambda>(i, s). \<lparr>step = int i + 1, entry_title = title s\<rparr>) (enumerate index steps))"
  by (induction steps arbitrary: index) simp_all

lemma elementProps_elements: "elementProps (map StepElement steps) = steps"
  by (induction steps) simp_all

text \<open>
  C5, as the code has it. Without a provider the accessor returns its error and never a
  state; with a provider it returns the provided value. The content component fails
  exactly when it is rendered without a provider, with that error. The wizard mounts the
  provider itself: on children that are all step elements it is the wizard on their props
  and renders, and it fails exactly when a child is not an element, and then with the
  \<open>TypeError\<close> of the step-list derivation, which is a second error beside the
  accessor's.
\<close>

theorem accessor_error_and_child_error:
  "useFormContext None = Inl (Error ''useFormContext must be used within a FormProvider'')
   \<and> (\<forall>c. useFormContext None \<noteq> Inr c)
   \<and> (\<forall>c. useFormContext (Some c) = Inr c)
   \<and> (\<forall>e. (MultiStepFormContent context steps onSubmit sd = Inl e)
          = (context = None \<and> e = Error ''useFormContext must be used within a FormProvider''))
   \<and> MultiStepForm_children (map StepElement steps) onSubmit st = MultiStepForm steps onSubmit st
   \<and> (stepsData_children 0 nodes = Inr entries)
       = (nodes = map StepElement (elementProps nodes)
          \<and> entries = stepsData (elementProps nodes))
   \<and> (\<exists>v. MultiStepForm_children nodes onSubmit st = Inr v) = list_all isStepElement nodes
   \<and> (\<forall>e. (MultiStepForm_children nodes onSubmit st = Inl e)
          = (e = TypeError \<and> \<not> list_all isStepElement nodes))"
proof -
  have content: "(MultiStepFormContent context steps onSubmit sd = Inl e)
          = (context = None \<and> e = Error ''useFormContext must be used within a FormProvider'')"
    for e
    by (cases "context") (auto simp: useFormContext_def MultiStepFormContent_def)
  have provided: "MultiStepFormContent (Some c) steps' onSubmit sd' \<noteq> Inl e" for c steps' sd' e
    by (simp add: useFormContext_def MultiStepFormContent_def)
  have link: "MultiStepForm_children (map StepElement steps) onSubmit st
                = MultiStepForm steps onSubmit st"
    by (simp add: MultiStepForm_children_def stepsData_children_elements elementProps_elements
        MultiStepForm_def stepsData_def)
  have fails: "(MultiStepForm_children nodes onSubmit st = Inl e)
          = (e = TypeError \<and> \<not> list_all isStepElement nodes)" for e
  proof (cases "stepsData_children 0 nodes")
    case (Inl e')
    then show ?thesis
      using stepsData_children_Inl [of 0 nodes e']
      by (auto simp: MultiStepForm_children_def)
  next
    case (Inr sd')
    then have "list_all isStepElement nodes"
      using stepsData_children_Inl [of 0 nodes TypeError] by auto
    with Inr show ?thesis
      by (simp add: MultiStepForm_children_def provided)
  qed
  have renders: "(\<exists>v. MultiStepForm_children nodes onSubmit st = Inr v)
                  = list_all isStepElement nodes"
  proof (cases "MultiStepForm_children nodes onSubmit st")
    case (Inl e)
    with fails [of e] show ?thesis by simp
  next
    case (Inr v)
    have "list_all isStepElement nodes"
    proof (rule ccontr)
      assume "\<not> list_all isStepElement nodes"
      with fails [of TypeError] Inr show False by simp
    qed
    with Inr show ?thesis by simp
  qed
  have derived: "(stepsData_children 0 nodes = Inr entries)
       = (nodes = map StepElement (elementProps nodes)
          \<and> entries = stepsData (elementProps nodes))"
  proof
    assume "stepsData_children 0 nodes = Inr entries"
    from stepsData_children_Inr [OF this]
    show "nodes = map StepElement (elementProps nodes)
          \<and> entries = stepsData (elementProps nodes)"
      by (simp add: stepsData_def)
  next
    assume r: "nodes = map StepElement (elementProps nodes)
          \<and> entries = stepsData (elementProps nodes)"
    have "stepsData_children 0 (map StepElement (elementProps nodes))
            = Inr (stepsData (elementProps nodes))"
      by (simp add: stepsData_children_elements stepsData_def)
    with r show "stepsData_children 0 nodes = Inr entries"
      by simp
  qed
  from content link fails renders derived show ?thesis
    by (simp add: useFormContext_def)
qed

text \<open>C5 as it is stated, that the accessor's error is the only one any operation can raise,
  fails for a step element followed by a text child: the provider would be mounted, and
  the render ends in the \<open>TypeError\<close>.\<close>

theorem text_child_raises_TypeError:
  "MultiStepForm_children [StepElement \<lparr>children = (), title = ''A''\<rparr>, TextNode ''hello'']
     Cons (initialState :: nat ProviderState) = Inl TypeError
   \<and> TypeError \<noteq> Error ''useFormContext must be used within a FormProvider''"
  by (simp add: MultiStepForm_children_def)

section \<open>Stepper, navigation controls and step list\<close>

text \<open>
  C7. For at least one declared step and \<open>currentStep\<close> between 0 and \<open>stepCount - 1\<close>, the
  stepper has one indicator per step, with ordinal \<open>i + 1\<close> at position \<open>i\<close>. An
  indicator is completed iff its ordinal is below \<open>currentStep + 1\<close>, active iff its
  ordinal is \<open>currentStep + 1\<close>, pending iff its ordinal is above; it has exactly one of
  the three looks. Exactly one indicator is active. A connector follows every indicator
  but the last, and is dark iff the indicator before it is completed.
\<close>

theorem stepper_marks_steps:
  assumes "1 \<le> length steps"
    and "0 \<le> currentStep_cell st" and "currentStep_cell st \<le> int (length steps) - 1"
  shows "\<exists>v. MultiStepForm steps onSubmit st = Inr v
     \<and> length (stepper v) = length steps
     \<and> (\<forall>i<length steps.
           indicator_key (stepper v ! i) = int i + 1
         \<and> is_completed (stepper v ! i) = (int i + 1 < currentStep_cell st + 1)
         \<and> is_active (stepper v ! i) = (int i + 1 = currentStep_cell st + 1)
         \<and> is_pending (stepper v ! i) = (currentStep_cell st + 1 < int i + 1)
         \<and> (is_completed (stepper v ! i) \<or> is_active (stepper v ! i)
              \<or> is_pending (stepper v ! i))
         \<and> \<not> (is_completed (stepper v ! i) \<and> is_active (stepper v ! i))
         \<and> \<not> (is_completed (stepper v ! i) \<and> is_pending (stepper v ! i))
         \<and> \<not> (is_active (stepper v ! i) \<and> is_pending (stepper v ! i))
         \<and> connector (stepper v ! i)
             = (if i + 1 < length steps
                then Some (if is_completed (stepper v ! i) then ''#788191'' else ''#EAECF0'')
                else None))
     \<and> filter is_active (stepper v) = [stepper v ! nat (currentStep_cell st)]"
proof -
  let ?cur = "currentStep_cell st + 1"
  let ?S = "EnhancedStepper (stepsData steps) ?cur"
  have len: "length ?S = length steps"
    by (simp add: length_EnhancedStepper length_stepsData)
  have each: "indicator_key (?S ! i) = int i + 1
         \<and> is_completed (?S ! i) = (int i + 1 < ?cur)
         \<and> is_active (?S ! i) = (int i + 1 = ?cur)
         \<and> is_pending (?S ! i) = (?cur < int i + 1)
         \<and> connector (?S ! i)
             = (if i + 1 < length steps
                then Some (if is_completed (?S ! i) then ''#788191'' else ''#EAECF0'')
                else None)" if "i < length steps" for i
  proof -
    from that have i: "i < length (stepsData steps)"
      by (simp add: length_stepsData)
    have ord: "step (stepsData steps ! i) = int i + 1"
      using that by (simp add: nth_stepsData)
    have "indicator_key (?S ! i) = int i + 1"
      using i ord by (simp add: nth_EnhancedStepper)
    moreover have "is_completed (?S ! i) = (int i + 1 < ?cur)"
      using completed_iff [OF i] ord by simp
    moreover have "is_active (?S ! i) = (int i + 1 = ?cur)"
      using active_iff [OF i] ord by simp
    moreover have "is_pending (?S ! i) = (?cur < int i + 1)"
      using pending_iff [OF i] ord by simp
    moreover have "connector (?S ! i)
             = (if i + 1 < length steps
                then Some (if is_completed (?S ! i) then ''#788191'' else ''#EAECF0'')
                else None)"
      using i ord completed_iff [OF i, of ?cur] that
      by (auto simp add: nth_EnhancedStepper length_stepsData)
    ultimately show ?thesis by simp
  qed
  have k: "nat (currentStep_cell st) < length ?S"
    using assms len by simp
  have "filter is_active ?S = [?S ! nat (currentStep_cell st)]"
  proof (rule filter_single [OF k])
    fix i assume "i < length ?S"
    then have "i < length steps" using len by simp
    from each [OF this] assms(2)
    show "is_active (?S ! i) = (i = nat (currentStep_cell st))"
      by auto
  qed
  with len each show ?thesis
    by (simp add: MultiStepForm_renders) linarith
qed

text \<open>Three steps titled A, B, C with \<open>currentStep = 1\<close>: completed, active, pending.\<close>

theorem stepper_marks_steps_witness:
  "1 \<le> length [\<lparr>children = (), title = ''A''\<rparr>, \<lparr>children = (), title = ''B''\<rparr>,
                \<lparr>children = (), title = ''C''\<rparr>]
   \<and> 0 \<le> currentStep_cell \<lparr>currentStep_cell = 1, formData_cell = Map.empty :: string \<rightharpoonup> nat\<rparr>
   \<and> currentStep_cell \<lparr>currentStep_cell = 1, formData_cell = Map.empty :: string \<rightharpoonup> nat\<rparr>
       \<le> int (length [\<lparr>children = (), title = ''A''\<rparr>, \<lparr>children = (), title = ''B''\<rparr>,
                       \<lparr>children = (), title = ''C''\<rparr>]) - 1
   \<and> (\<exists>v. MultiStepForm [\<lparr>children = (), title = ''A''\<rparr>, \<lparr>children = (), title = ''B''\<rparr>,
                          \<lparr>children = (), title = ''C''\<rparr>] (\<lambda>d log. log @ [d])
              \<lparr>currentStep_cell = 1, formData_cell = Map.empty :: string \<rightharpoonup> nat\<rparr> = Inr v
          \<and> length (stepper v) = 3
          \<and> is_completed (stepper v ! 0) \<and> connector (stepper v ! 0) = Some ''#788191''
          \<and> is_active (stepper v ! 1) \<and> connector (stepper v ! 1) = Some ''#EAECF0''
          \<and> is_pending (stepper v ! 2) \<and> connector (stepper v ! 2) = None
          \<and> filter is_active (stepper v) = [stepper v ! 1])"
proof -
  let ?steps = "[\<lparr>children = (), title = ''A''\<rparr>, \<lparr>children = (), title = ''B''\<rparr>,
                \<lparr>children = (), title = ''C''\<rparr>]"
  let ?st = "\<lparr>currentStep_cell = 1, formData_cell = Map.empty :: string \<rightharpoonup> nat\<rparr>"
  have h1: "1 \<le> length ?steps" by simp
  have h2: "0 \<le> currentStep_cell ?st" by simp
  have h3: "currentStep_cell ?st \<le> int (length ?steps) - 1" by simp
  from stepper_marks_steps [OF h1 h2 h3, where onSubmit = "\<lambda>d log. log @ [d]"]
  obtain v where v: "MultiStepForm ?steps (\<lambda>d log. log @ [d]) ?st = Inr v"
    and len: "length (stepper v) = length ?steps"
    and each: "\<forall>i<length ?steps.
           indicator_key (stepper v ! i) = int i + 1
         \<and> is_completed (stepper v ! i) = (int i + 1 < currentStep_cell ?st + 1)
         \<and> is_active (stepper v ! i) = (int i + 1 = currentStep_cell ?st + 1)
         \<and> is_pending (stepper v ! i) = (currentStep_cell ?st + 1 < int i + 1)
         \<and> (is_completed (stepper v ! i) \<or> is_active (stepper v ! i)
              \<or> is_pending (stepper v ! i))
         \<and> \<not> (is_completed (stepper v ! i) \<and> is_active (stepper v ! i))
         \<and> \<not> (is_completed (stepper v ! i) \<and> is_pending (stepper v ! i))
         \<and> \<not> (is_active (stepper v ! i) \<and> is_pending (stepper v ! i))
         \<and> connector (stepper v ! i)
             = (if i + 1 < length ?steps
                then Some (if is_completed (stepper v ! i) then ''#788191'' else ''#EAECF0'')
                else None)"
    and one: "filter is_active (stepper v) = [stepper v ! nat (currentStep_cell ?st)]"
    by blast
  from each [rule_format, of 0]
  have e0: "is_completed (stepper v ! 0) \<and> connector (stepper v ! 0) = Some ''#788191''"
    by simp
  from each [rule_format, of 1]
  have e1: "is_active (stepper v ! 1) \<and> connector (stepper v ! 1) = Some ''#EAECF0''"
    by simp
  from each [rule_format, of 2]
  have e2: "is_pending (stepper v ! 2) \<and> connector (stepper v ! 2) = None"
    by simp
  from v len one e0 e1 e2 h1 h2 h3 show ?thesis
    by simp
qed

text \<open>
  C8. The navigation the wizard renders is \<open>Navigation\<close> applied to the two flags and the
  three handlers, and nothing else. Its Previous control is disabled exactly when
  \<open>currentStep = 0\<close>; its second control is Submit exactly when
  \<open>currentStep = stepCount - 1\<close> and Next exactly otherwise; the controls carry the
  handlers of Previous, Submit and Next.
\<close>

theorem Navigation_controls:
  "\<exists>v. MultiStepForm steps onSubmit st = Inr v
     \<and> navigation v =
         Navigation (currentStep_cell st = 0) (currentStep_cell st = int (length steps) - 1)
           (onNext steps (FormProvider st)) (onPrev (FormProvider st))
           (handleSubmit onSubmit (FormProvider st))
     \<and> label (previous_button (navigation v)) = ''Previous''
     \<and> disabled (previous_button (navigation v)) = (currentStep_cell st = 0)
     \<and> (label (action_button (navigation v)) = ''Submit'')
         = (currentStep_cell st = int (length steps) - 1)
     \<and> (label (action_button (navigation v)) = ''Next'')
         = (currentStep_cell st \<noteq> int (length steps) - 1)
     \<and> onClick (previous_button (navigation v)) m = activate Previous steps onSubmit m
     \<and> onClick (action_button (navigation v)) (st, w)
         = (if currentStep_cell st = int (length steps) - 1
            then activate Submit steps onSubmit (st, w)
            else activate Next steps onSubmit (st, w))"
  by (cases m) (simp add: MultiStepForm_renders Navigation_def activate_def FormProvider_def
      onPrev_def onNext_def handleSubmit_def)

text \<open>
  C9. The derived step list has one entry per declared step, and the entry at position
  \<open>i\<close> has ordinal \<open>i + 1\<close> and the title of the \<open>i\<close>-th step. The list is a function
  of the declared steps alone: the ordinals and titles the stepper shows are the same
  whatever \<open>currentStep\<close> and the form data are.
\<close>

theorem stepsData_parallel:
  "length (stepsData steps) = length steps
   \<and> (\<forall>i<length steps.
         stepsData steps ! i = \<lparr>step = int i + 1, entry_title = title (steps ! i)\<rparr>)
   \<and> (\<exists>v v'. MultiStepForm steps onSubmit st = Inr v
         \<and> MultiStepForm steps onSubmit st' = Inr v'
         \<and> map indicator_key (stepper v) = map (\<lambda>i. int i + 1) [0..<length steps]
         \<and> map heading (stepper v) = map title steps
         \<and> map indicator_key (stepper v') = map indicator_key (stepper v)
         \<and> map heading (stepper v') = map heading (stepper v))"
proof -
  have keys: "map indicator_key (EnhancedStepper (stepsData steps) cur)
                = map (\<lambda>i. int i + 1) [0..<length steps]" for cur
    by (rule nth_equalityI)
      (simp_all add: length_EnhancedStepper length_stepsData nth_EnhancedStepper nth_stepsData)
  have heads: "map heading (EnhancedStepper (stepsData steps) cur) = map title steps" for cur
    by (rule nth_equalityI)
      (simp_all add: length_EnhancedStepper length_stepsData nth_EnhancedStepper nth_stepsData)
  show ?thesis
    by (simp add: length_stepsData nth_stepsData MultiStepForm_renders keys heads)
qed

text \<open>Three steps titled A, B, C: the third entry is \<open>{step: 3, title: C}\<close>.\<close>

theorem stepsData_parallel_witness:
  "stepsData [\<lparr>children = (), title = ''A''\<rparr>, \<lparr>children = (), title = ''B''\<rparr>,
              \<lparr>children = (), title = ''C''\<rparr>] ! 2 = \<lparr>step = 3, entry_title = ''C''\<rparr>
   \<and> length (stepsData [\<lparr>children = (), title = ''A''\<rparr>, \<lparr>children = (), title = ''B''\<rparr>,
              \<lparr>children = (), title = ''C''\<rparr>]) = 3"
proof -
  let ?steps = "[\<lparr>children = (), title = ''A''\<rparr>, \<lparr>children = (), title = ''B''\<rparr>,
                \<lparr>children = (), title = ''C''\<rparr>]"
  from stepsData_parallel [where steps = ?steps and onSubmit = "\<lambda>d log. log @ [d]"
      and st = "initialState :: nat ProviderState" and st' = "initialState"]
  have len: "length (stepsData ?steps) = length ?steps"
    and nth: "\<forall>i<length ?steps.
         stepsData ?steps ! i = \<lparr>step = int i + 1, entry_title = title (?steps ! i)\<rparr>"
    by blast+
  from nth [rule_format, of 2] len show ?thesis
    by simp
qed

end
